theory Spec2Isabelle
  imports Complex_Main
begin

section \<open>Data model\<close>

text \<open>
  The plugin \<^verbatim>\<open>AmmoSystemDev.js\<close> reads its configuration from notetags in the note text of
  database entries. The notetags are modelled as already parsed: every tag the plugin reads
  with \<^verbatim>\<open>getNotetagValue\<close>, \<^verbatim>\<open>getNotetagNumber\<close>, \<^verbatim>\<open>getNotetagStateInfo\<close> or
  \<^verbatim>\<open>getNotetagLowAmmoAnimInfo\<close> is a field of the record of its database entry, \<open>None\<close> where
  the accessor returns \<^verbatim>\<open>null\<close>. The three substring tests of \<^verbatim>\<open>startAction\<close>
  (\<^verbatim>\<open>actionNote.includes\<close>) are boolean fields of their own.

  JavaScript numbers are modelled by their mathematical values: percentages and stat values
  are \<open>real\<close>, counts and identifiers are \<open>int\<close> or \<open>nat\<close>. A numeric tag is taken to hold a
  finite number (no \<^verbatim>\<open>NaN\<close>), and \<^verbatim>\<open>MultiShot\<close> and \<^verbatim>\<open>LowAmmoAnimation\<close> to hold integers.
  Rounding error of IEEE doubles is not modelled.
\<close>

record item =
  item_id :: nat
  item_Ammo :: "string option"
  item_AmmoAtk :: "real option"
  item_AmmoHitRate :: "real option"
  item_AmmoCrit :: "real option"
  item_AmmoDmgType :: "real option"
  item_AmmoAnimation :: "int option"
  item_AmmoState :: "(nat \<times> nat) list"

record weapon =
  weapon_Ammo :: "string option"
  weapon_DefaultWeaponId :: "nat option"
  weapon_RangedHit :: "real option"
  weapon_RangedCrit :: "real option"
  animationId :: int

text \<open>The database entry behind \<^verbatim>\<open>action.item()\<close>: a skill or a usable item.\<close>

record usable =
  note_includes_UseAmmo :: bool
  note_includes_StrictAmmo :: bool
  note_includes_MultiShot :: bool
  usable_StrictAmmo :: "real option"
  usable_MultiShot :: "int option"
  usable_LowAmmoAnimation :: "(int \<times> int) option"
  usable_NoAmmoAnimation :: "int option"
  successRate :: real

text \<open>A \<^verbatim>\<open>Game_Action\<close>; \<open>overrideAnimationId = 0\<close> stands for an unset or zero
  \<^verbatim>\<open>_overrideAnimationId\<close>.\<close>

record action =
  isAttack :: bool
  isSkill :: bool
  act_item :: usable
  overrideAnimationId :: int

text \<open>
  A \<^verbatim>\<open>Game_Actor\<close>: the two values the plugin takes from the host engine's own methods
  (\<open>equipped_weapons\<close> is what the original \<^verbatim>\<open>weapons()\<close> returns, \<open>base_xparam\<close> what the
  original \<^verbatim>\<open>xparam\<close> returns) and the members the plugin adds in \<^verbatim>\<open>initMembers\<close>.
\<close>

record actor =
  equipped_weapons :: "weapon list"
  base_xparam :: "nat \<Rightarrow> real"
  battleWeapon :: "weapon option"
  originalWeaponData :: "weapon option"
  tempAmmoAtk :: real
  tempAmmoStateInfo :: "(nat \<times> real) list"
  tempAmmoElementId :: "real option"
  tempRangedHit :: real
  tempAmmoHit :: real
  tempRangedCrit :: real
  tempAmmoCrit :: real
  isApplyingTempAmmoParams :: bool
  ammoToConsumeCount :: int

datatype battler = Actor actor | Enemy

text \<open>The plugin parameters and the database tables; index 0 of a table is empty, as in the
  host engine.\<close>

record config =
  ammoTypeVariables :: "(string \<times> nat) list"
  dataItems :: "item option list"
  dataWeapons :: "weapon option list"

text \<open>
  The mutable state the hooks read and write: the game variables, the party's item counts
  by item id, whether the party is in battle, and \<^verbatim>\<open>BattleManager\<close>'s subject with its
  current action.
\<close>

record game =
  gameVariables :: "nat \<Rightarrow> int"
  partyItems :: "nat \<Rightarrow> int"
  inBattle :: bool
  subject :: "battler option"
  currentAction :: "action option"

record target =
  result_isHit :: bool
  isEnemy :: bool
  isAlive :: bool
  target_states :: "nat list"

datatype js_error = TypeError | SyntaxError

section \<open>JavaScript idioms\<close>

text \<open>\<^verbatim>\<open>x || 0\<close> on a number or \<^verbatim>\<open>null\<close>.\<close>

definition or0 :: "real option \<Rightarrow> real" where
  "or0 v = (case v of None \<Rightarrow> 0 | Some x \<Rightarrow> x)"

text \<open>Truthiness of a string or \<^verbatim>\<open>null\<close>.\<close>

definition truthy_str :: "string option \<Rightarrow> bool" where
  "truthy_str v = (case v of None \<Rightarrow> False | Some s \<Rightarrow> s \<noteq> [])"

section \<open>Host engine collaborators\<close>

text \<open>Modelled from the spec: the inventory collaborator's \<^verbatim>\<open>ownedCount(instanceId)\<close>, which is
  \<^verbatim>\<open>$gameParty.numItems(item)\<close> of the host engine.\<close>

definition numItems :: "game \<Rightarrow> item \<Rightarrow> int" where
  "numItems g it = partyItems g (item_id it)"

text \<open>Modelled from the spec: the inventory collaborator's \<^verbatim>\<open>hasAny(instanceId)\<close>, which is
  \<^verbatim>\<open>$gameParty.hasItem(item)\<close> of the host engine.\<close>

definition hasItem :: "game \<Rightarrow> item \<Rightarrow> bool" where
  "hasItem g it = (0 < numItems g it)"

text \<open>\<^verbatim>\<open>$dataItems[i]\<close>: an index outside the table reads \<^verbatim>\<open>undefined\<close>.\<close>

definition dataItems_at :: "config \<Rightarrow> nat \<Rightarrow> item option" where
  "dataItems_at cfg i = (if i < length (dataItems cfg) then dataItems cfg ! i else None)"

definition dataWeapons_at :: "config \<Rightarrow> nat \<Rightarrow> weapon option" where
  "dataWeapons_at cfg i = (if i < length (dataWeapons cfg) then dataWeapons cfg ! i else None)"

text \<open>Modelled from the spec: the owned consumable instances in a stable, deterministic
  order, which is \<^verbatim>\<open>$gameParty.items()\<close> of the host engine: the database entries of the
  owned ids, in ascending order of id.\<close>

definition party_items :: "config \<Rightarrow> game \<Rightarrow> item list" where
  "party_items cfg g =
     List.map_filter (dataItems_at cfg)
       (filter (\<lambda>i. 0 < partyItems g i) [0 ..< length (dataItems cfg)])"

text \<open>Modelled from the spec: the inventory collaborator's \<^verbatim>\<open>deduct(instanceId, count)\<close>, which
  fails silently if the count exceeds the stock; \<^verbatim>\<open>$gameParty.loseItem\<close> of the host
  engine.\<close>

definition loseItem :: "game \<Rightarrow> item \<Rightarrow> int \<Rightarrow> game" where
  "loseItem g it n =
     (if n \<le> numItems g it
      then g\<lparr>partyItems := (partyItems g)(item_id it := numItems g it - n)\<rparr>
      else g)"

text \<open>Modelled from the spec: the persistent selection slot, an integer-addressed cell of the
  host's variable store; \<^verbatim>\<open>$gameVariables.setValue\<close>.\<close>

definition setValue :: "game \<Rightarrow> nat \<Rightarrow> int \<Rightarrow> game" where
  "setValue g variableId v = g\<lparr>gameVariables := (gameVariables g)(variableId := v)\<rparr>"

text \<open>Modelled from the spec: inflicting a state on a target; \<^verbatim>\<open>target.addState\<close> of the
  host engine.\<close>

definition addState :: "target \<Rightarrow> nat \<Rightarrow> target" where
  "addState t stateId = t\<lparr>target_states := target_states t @ [stateId]\<rparr>"

section \<open>Utility functions\<close>

definition getVariableIdForAmmoType :: "config \<Rightarrow> string option \<Rightarrow> nat option" where
  "getVariableIdForAmmoType cfg ammoType =
     (case find (\<lambda>e. Some (fst e) = ammoType) (ammoTypeVariables cfg) of
        None \<Rightarrow> None
      | Some entry \<Rightarrow> Some (snd entry))"

definition getNotetagStateInfo :: "item \<Rightarrow> (nat \<times> real) list" where
  "getNotetagStateInfo it = map (\<lambda>(stateId, chance). (stateId, real chance / 100)) (item_AmmoState it)"

definition findBestMatchingAmmoItem :: "config \<Rightarrow> game \<Rightarrow> string option \<Rightarrow> item option" where
  "findBestMatchingAmmoItem cfg g requiredAmmoType =
     find (\<lambda>it. item_Ammo it = requiredAmmoType) (party_items cfg g)"

text \<open>The test both selector functions make on the slotted item:
  \<^verbatim>\<open>ammoItem && getNotetagValue(ammoItem.note, "Ammo") === weaponAmmoType && $gameParty.hasItem(ammoItem)\<close>.\<close>

definition slotted_ok :: "game \<Rightarrow> string option \<Rightarrow> item option \<Rightarrow> bool" where
  "slotted_ok g weaponAmmoType ammoItem =
     (case ammoItem of
        None \<Rightarrow> False
      | Some it \<Rightarrow> item_Ammo it = weaponAmmoType \<and> hasItem g it)"

definition hasValidAmmo :: "config \<Rightarrow> game \<Rightarrow> string option \<Rightarrow> bool" where
  "hasValidAmmo cfg g weaponAmmoType =
     (case getVariableIdForAmmoType cfg weaponAmmoType of
        None \<Rightarrow> True
      | Some variableId \<Rightarrow>
          if variableId = 0 then True
          else
            let ammoId = gameVariables g variableId;
                ammoItem = (if 0 < ammoId then dataItems_at cfg (nat ammoId) else None)
            in if slotted_ok g weaponAmmoType ammoItem then True
               else findBestMatchingAmmoItem cfg g weaponAmmoType \<noteq> None)"

definition ensureValidAmmoSelected :: "config \<Rightarrow> game \<Rightarrow> string option \<Rightarrow> item option \<times> game" where
  "ensureValidAmmoSelected cfg g weaponAmmoType =
     (case getVariableIdForAmmoType cfg weaponAmmoType of
        None \<Rightarrow> (None, g)
      | Some variableId \<Rightarrow>
          if variableId = 0 then (None, g)
          else
            let ammoId = gameVariables g variableId;
                ammoItem = (if 0 < ammoId then dataItems_at cfg (nat ammoId) else None)
            in if slotted_ok g weaponAmmoType ammoItem then (ammoItem, g)
               else
                 let bestAmmo = findBestMatchingAmmoItem cfg g weaponAmmoType
                 in (bestAmmo,
                     setValue g variableId
                       (case bestAmmo of None \<Rightarrow> 0 | Some b \<Rightarrow> int (item_id b))))"

section \<open>Game_Actor\<close>

definition xparam :: "actor \<Rightarrow> nat \<Rightarrow> real" where
  "xparam a xparamId =
     (let v = base_xparam a xparamId
      in if isApplyingTempAmmoParams a
         then (let v1 = (if xparamId = 0 then v + (tempRangedHit a + tempAmmoHit a) else v)
               in if xparamId = 2 then v1 + (tempRangedCrit a + tempAmmoCrit a) else v1)
         else v)"

definition weapons :: "game \<Rightarrow> actor \<Rightarrow> weapon list" where
  "weapons g a =
     (case (inBattle g, battleWeapon a) of
        (True, Some bw) \<Rightarrow>
          (case equipped_weapons a of
             [] \<Rightarrow> equipped_weapons a
           | _ # rest \<Rightarrow> bw # rest)
      | _ \<Rightarrow> equipped_weapons a)"

text \<open>\<^verbatim>\<open>JSON.parse(JSON.stringify(w))\<close> of a database entry is a copy of the value; of
  \<^verbatim>\<open>undefined\<close> (a default weapon id outside the table) it throws a \<^verbatim>\<open>SyntaxError\<close>, and
  of \<^verbatim>\<open>null\<close> it is \<^verbatim>\<open>null\<close>.\<close>

definition setupBattleWeapon :: "config \<Rightarrow> actor \<Rightarrow> js_error + actor" where
  "setupBattleWeapon cfg a =
     (case equipped_weapons a of
        [] \<Rightarrow> Inr (a\<lparr>battleWeapon := None, originalWeaponData := None\<rparr>)
      | weapon # _ \<Rightarrow>
          (case weapon_DefaultWeaponId weapon of
             None \<Rightarrow> Inr (a\<lparr>originalWeaponData := Some weapon, battleWeapon := Some weapon\<rparr>)
           | Some defaultId \<Rightarrow>
               if defaultId = 0
               then Inr (a\<lparr>originalWeaponData := Some weapon, battleWeapon := Some weapon\<rparr>)
               else if defaultId < length (dataWeapons cfg)
               then Inr (a\<lparr>originalWeaponData := dataWeapons cfg ! defaultId,
                           battleWeapon := dataWeapons cfg ! defaultId\<rparr>)
               else Inl SyntaxError))"

subsection \<open>The multi-shot formulas of \<^verbatim>\<open>applyAmmoEffects\<close>\<close>

text \<open>Lines 292 and 293: the sum of the three hit values is multiplied by the skill's
  success rate, and the product is clamped.\<close>

definition singleShotHitChance :: "real \<Rightarrow> real \<Rightarrow> real \<Rightarrow> real \<Rightarrow> real" where
  "singleShotHitChance baseHit rangedHitBonus ammoHitBonusForSim skillSuccessRate =
     max 0.01 (min 0.95 ((baseHit + rangedHitBonus + ammoHitBonusForSim) * skillSuccessRate))"

text \<open>Lines 294 and 295.\<close>

definition probAtLeastOneHit :: "real \<Rightarrow> nat \<Rightarrow> real" where
  "probAtLeastOneHit p numShots = 1 - (1 - p) ^ numShots"

text \<open>Line 296; \<^verbatim>\<open>Math.round\<close> is \<open>\<lfloor>x + 1/2\<rfloor>\<close>, which is \<^const>\<open>round\<close>.\<close>

definition multiShotAtk :: "nat \<Rightarrow> real \<Rightarrow> real \<Rightarrow> int" where
  "multiShotAtk numShots baseAmmoAtk p =
     round (real numShots * baseAmmoAtk * probAtLeastOneHit p numShots)"

text \<open>Lines 315 to 317 and 333 to 335, with \<open>r = 0.5\<close>.\<close>

definition totalBonus :: "real \<Rightarrow> nat \<Rightarrow> real" where
  "totalBonus a numShots = a * (1 - (1 / 2) ^ numShots) / (1 - 1 / 2)"

text \<open>\<^verbatim>\<open>lowAmmoAnimInfo && $gameParty.numItems(ammoItem) < lowAmmoAnimInfo.quantity\<close>.\<close>

definition lowAmmo :: "(int \<times> int) option \<Rightarrow> int \<Rightarrow> bool" where
  "lowAmmo lowAmmoAnimInfo owned =
     (case lowAmmoAnimInfo of None \<Rightarrow> False | Some (quantity, animId) \<Rightarrow> owned < quantity)"

text \<open>Lines 306 to 321: the hit rate bonus of a volley of \<open>numShots\<close> shots.\<close>

definition multiShotHitBonus :: "item \<Rightarrow> usable \<Rightarrow> int \<Rightarrow> nat \<Rightarrow> real" where
  "multiShotHitBonus ammoItem skill owned numShots =
     (let initialHitRate = or0 (item_AmmoHitRate ammoItem)
      in if 0 < initialHitRate
         then (let hitRateModifier =
                     (if lowAmmo (usable_LowAmmoAnimation skill) owned then 0.5 else 0.75);
                   a = initialHitRate * hitRateModifier
               in if 0 < a then totalBonus a numShots / 100 else 0)
         else or0 (item_AmmoHitRate ammoItem) / 100)"

text \<open>Lines 324 to 339: the critical rate bonus of a volley.\<close>

definition multiShotCritBonus :: "item \<Rightarrow> usable \<Rightarrow> int \<Rightarrow> nat \<Rightarrow> real" where
  "multiShotCritBonus ammoItem skill owned numShots =
     (let initialCritRate = or0 (item_AmmoCrit ammoItem)
      in if 0 < initialCritRate
         then (let critRateModifier =
                     (if lowAmmo (usable_LowAmmoAnimation skill) owned then 0.33 else 0.5);
                   a = initialCritRate * critRateModifier
               in if 0 < a then totalBonus a numShots / 100 else 0)
         else or0 (item_AmmoCrit ammoItem) / 100)"

text \<open>Lines 281 to 346: the five values the multi-shot block leaves in \<^verbatim>\<open>_tempAmmoAtk\<close>,
  \<^verbatim>\<open>finalStates\<close>, \<^verbatim>\<open>finalAmmoHitBonus\<close>, \<^verbatim>\<open>finalAmmoCritBonus\<close> and \<^verbatim>\<open>ammoToConsume\<close>.
  With a positive count and no shot, nothing is assigned: the attack bonus stays what it was
  and the other four keep their initial values.\<close>

definition composeModifiers ::
    "game \<Rightarrow> actor \<Rightarrow> weapon \<Rightarrow> item \<Rightarrow> action \<Rightarrow> real \<times> (nat \<times> real) list \<times> real \<times> real \<times> int" where
  "composeModifiers g a baseWeaponForAction ammoItem act =
     (let baseAmmoAtk = or0 (item_AmmoAtk ammoItem);
          baseStates = getNotetagStateInfo ammoItem;
          finalAmmoHitBonus = or0 (item_AmmoHitRate ammoItem) / 100;
          finalAmmoCritBonus = or0 (item_AmmoCrit ammoItem) / 100
      in case usable_MultiShot (act_item act) of
           None \<Rightarrow> (baseAmmoAtk, baseStates, finalAmmoHitBonus, finalAmmoCritBonus, 1)
         | Some multiShotCount \<Rightarrow>
             if 0 < multiShotCount
             then (let numInInventory = numItems g ammoItem;
                       numShots = min multiShotCount numInInventory
                   in if 0 < numShots
                      then (let skillSuccessRate = successRate (act_item act) / 100;
                                baseHit = xparam a 0;
                                rangedHitBonus = or0 (weapon_RangedHit baseWeaponForAction) / 100;
                                ammoHitBonusForSim = or0 (item_AmmoHitRate ammoItem) / 100;
                                p = singleShotHitChance baseHit rangedHitBonus ammoHitBonusForSim
                                      skillSuccessRate
                            in (real_of_int (multiShotAtk (nat numShots) baseAmmoAtk p),
                                concat (replicate (nat numShots) baseStates),
                                multiShotHitBonus ammoItem (act_item act) numInInventory (nat numShots),
                                multiShotCritBonus ammoItem (act_item act) numInInventory (nat numShots),
                                numShots))
                      else (tempAmmoAtk a, [], finalAmmoHitBonus, finalAmmoCritBonus, 1))
             else (baseAmmoAtk, baseStates, finalAmmoHitBonus, finalAmmoCritBonus, 1))"

text \<open>\<^verbatim>\<open>applyAmmoEffects\<close>. With no battle weapon, reading \<^verbatim>\<open>baseWeaponForAction.note\<close>
  (line 290 or line 353) throws a \<^verbatim>\<open>TypeError\<close>, which leaves the hook.\<close>

definition applyAmmoEffects :: "game \<Rightarrow> actor \<Rightarrow> item option \<Rightarrow> action \<Rightarrow> js_error + actor" where
  "applyAmmoEffects g a ammoItemOpt act =
     (case ammoItemOpt of
        None \<Rightarrow> Inr a
      | Some ammoItem \<Rightarrow>
          (case battleWeapon a of
             None \<Rightarrow> Inl TypeError
           | Some baseWeaponForAction \<Rightarrow>
               (case composeModifiers g a baseWeaponForAction ammoItem act of
                  (atk, finalStates, finalAmmoHitBonus, finalAmmoCritBonus, ammoToConsume) \<Rightarrow>
                    Inr (a\<lparr>tempAmmoAtk := atk,
                           ammoToConsumeCount := ammoToConsume,
                           tempAmmoStateInfo := finalStates,
                           tempAmmoHit := finalAmmoHitBonus,
                           tempAmmoCrit := finalAmmoCritBonus,
                           tempRangedHit := or0 (weapon_RangedHit baseWeaponForAction) / 100,
                           tempRangedCrit := or0 (weapon_RangedCrit baseWeaponForAction) / 100,
                           tempAmmoElementId := item_AmmoDmgType ammoItem,
                           isApplyingTempAmmoParams := True\<rparr>))))"

definition resetAmmoEffects :: "actor \<Rightarrow> actor" where
  "resetAmmoEffects a =
     (let a1 = (case originalWeaponData a of
                  None \<Rightarrow> a
                | Some w \<Rightarrow> a\<lparr>battleWeapon := Some w\<rparr>)
      in a1\<lparr>tempAmmoAtk := 0,
             tempAmmoStateInfo := [],
             tempAmmoElementId := None,
             tempRangedHit := 0,
             tempAmmoHit := 0,
             tempRangedCrit := 0,
             tempAmmoCrit := 0,
             ammoToConsumeCount := 0,
             isApplyingTempAmmoParams := False\<rparr>)"

section \<open>BattleManager hooks\<close>

text \<open>The host engine's own \<^verbatim>\<open>startAction\<close> and \<^verbatim>\<open>endAction\<close>, which the hooks call first,
  are taken to leave the modelled state as it is.\<close>

text \<open>Lines 406 to 410: a basic attack takes the ammo's animation on the battle weapon.\<close>

definition attackAnimation :: "item \<Rightarrow> actor \<Rightarrow> actor" where
  "attackAnimation ammoToUse a =
     (case battleWeapon a of
        None \<Rightarrow> a
      | Some bw \<Rightarrow>
          (case item_AmmoAnimation ammoToUse of
             None \<Rightarrow> a
           | Some ammoAnimId \<Rightarrow>
               if ammoAnimId \<noteq> 0 then a\<lparr>battleWeapon := Some (bw\<lparr>animationId := ammoAnimId\<rparr>)\<rparr>
               else a))"

text \<open>Lines 411 to 426: a multi-shot skill low on ammo takes the low ammo animation.\<close>

definition skillAnimation :: "game \<Rightarrow> item \<Rightarrow> action \<Rightarrow> action" where
  "skillAnimation g ammoToUse act =
     (let animationIdToUse =
            (case (usable_MultiShot (act_item act), usable_LowAmmoAnimation (act_item act)) of
               (Some multiShotCount, Some (quantity, animId)) \<Rightarrow>
                 if 0 < multiShotCount \<and> quantity < multiShotCount \<and> numItems g ammoToUse < quantity
                 then animId else 0
             | _ \<Rightarrow> 0)
      in if 0 < animationIdToUse then act\<lparr>overrideAnimationId := animationIdToUse\<rparr> else act)"

text \<open>Lines 429 to 435: a skill without ammo takes the no-ammo animation.\<close>

definition noAmmoAnimation :: "action \<Rightarrow> action" where
  "noAmmoAnimation act =
     (if isSkill act
      then (case usable_NoAmmoAnimation (act_item act) of
              None \<Rightarrow> act
            | Some noAmmoAnimId \<Rightarrow>
                if noAmmoAnimId \<noteq> 0 then act\<lparr>overrideAnimationId := noAmmoAnimId\<rparr> else act)
      else act)"

definition isAmmoAction :: "action \<Rightarrow> bool" where
  "isAmmoAction act =
     (isAttack act \<or> note_includes_UseAmmo (act_item act)
        \<or> note_includes_StrictAmmo (act_item act) \<or> note_includes_MultiShot (act_item act))"

definition startAction :: "config \<Rightarrow> game \<Rightarrow> js_error + game" where
  "startAction cfg g =
     (case subject g of
        Some (Actor a) \<Rightarrow>
          (case (currentAction g, weapons g a) of
             (Some act, weapon # _) \<Rightarrow>
               let weaponAmmoType = weapon_Ammo weapon
               in if truthy_str weaponAmmoType \<and> isAmmoAction act
                  then (case ensureValidAmmoSelected cfg g weaponAmmoType of
                          (ammoToUse, g1) \<Rightarrow>
                            let a1 = resetAmmoEffects a
                            in (case ammoToUse of
                                  Some ammo \<Rightarrow>
                                    (case applyAmmoEffects g1 a1 (Some ammo) act of
                                       Inl e \<Rightarrow> Inl e
                                     | Inr a2 \<Rightarrow>
                                         if isAttack act
                                         then Inr (g1\<lparr>subject := Some (Actor (attackAnimation ammo a2))\<rparr>)
                                         else if isSkill act
                                         then Inr (g1\<lparr>subject := Some (Actor a2),
                                                      currentAction := Some (skillAnimation g1 ammo act)\<rparr>)
                                         else Inr (g1\<lparr>subject := Some (Actor a2)\<rparr>))
                                | None \<Rightarrow>
                                    Inr (g1\<lparr>subject := Some (Actor a1),
                                            currentAction := Some (noAmmoAnimation act)\<rparr>)))
                  else Inr g
           | _ \<Rightarrow> Inr g)
      | _ \<Rightarrow> Inr g)"

definition endAction :: "game \<Rightarrow> game" where
  "endAction g =
     (let g1 = (case currentAction g of
                  None \<Rightarrow> g
                | Some act \<Rightarrow>
                    if overrideAnimationId act \<noteq> 0
                    then g\<lparr>currentAction := Some (act\<lparr>overrideAnimationId := 0\<rparr>)\<rparr>
                    else g)
      in case subject g1 of
           Some (Actor a) \<Rightarrow>
             if isApplyingTempAmmoParams a
             then g1\<lparr>subject := Some (Actor (resetAmmoEffects a))\<rparr>
             else g1
         | _ \<Rightarrow> g1)"

section \<open>Game_Action hooks\<close>

text \<open>\<open>host_itemHit\<close> is the host engine's own \<^verbatim>\<open>itemHit\<close>, the normal hit computation.\<close>

definition itemHit ::
    "config \<Rightarrow> game \<Rightarrow> (game \<Rightarrow> action \<Rightarrow> target \<Rightarrow> real) \<Rightarrow> action \<Rightarrow> target \<Rightarrow> real" where
  "itemHit cfg g host_itemHit act t =
     (case subject g of
        Some (Actor a) \<Rightarrow>
          if isSkill act
          then (case usable_StrictAmmo (act_item act) of
                  None \<Rightarrow> host_itemHit g act t
                | Some strictAmmoValue \<Rightarrow>
                    (case weapons g a of
                       [] \<Rightarrow> host_itemHit g act t
                     | weapon # _ \<Rightarrow>
                         let weaponAmmoType = weapon_Ammo weapon
                         in if truthy_str weaponAmmoType \<and> \<not> hasValidAmmo cfg g weaponAmmoType
                            then strictAmmoValue / 100
                            else host_itemHit g act t))
          else host_itemHit g act t
      | _ \<Rightarrow> host_itemHit g act t)"

text \<open>Lines 530 to 536: one \<^verbatim>\<open>Math.random()\<close> draw per state entry; \<open>random k\<close> is the draw for
  entry \<open>k\<close>.\<close>

definition rollStates :: "(nat \<times> real) list \<Rightarrow> (nat \<Rightarrow> real) \<Rightarrow> target \<Rightarrow> target" where
  "rollStates stateInfos random t =
     fold (\<lambda>(k, (stateId, chance)) t'. if random k < chance then addState t' stateId else t')
       (enumerate 0 stateInfos) t"

text \<open>
  The hook on \<^verbatim>\<open>Game_Action.prototype.apply\<close>. The host engine's own \<^verbatim>\<open>apply\<close> runs first and
  leaves its outcome in \<^verbatim>\<open>target.result()\<close>; \<open>t\<close> is the target after it.
\<close>

definition apply_hook :: "config \<Rightarrow> game \<Rightarrow> (nat \<Rightarrow> real) \<Rightarrow> target \<Rightarrow> target \<times> game" where
  "apply_hook cfg g random t =
     (case subject g of
        Some (Actor a) \<Rightarrow>
          if isApplyingTempAmmoParams a
          then if result_isHit t
               then (let t1 = (if tempAmmoStateInfo a \<noteq> [] \<and> isEnemy t \<and> isAlive t
                               then rollStates (tempAmmoStateInfo a) random t else t)
                     in if 0 < ammoToConsumeCount a
                        then (case weapons g a of
                                [] \<Rightarrow> (t1, g\<lparr>subject := Some (Actor (a\<lparr>ammoToConsumeCount := 0\<rparr>))\<rparr>)
                              | weapon # _ \<Rightarrow>
                                  (case ensureValidAmmoSelected cfg g (weapon_Ammo weapon) of
                                     (None, g1) \<Rightarrow>
                                       (t1, g1\<lparr>subject := Some (Actor (a\<lparr>ammoToConsumeCount := 0\<rparr>))\<rparr>)
                                   | (Some ammoItem, g1) \<Rightarrow>
                                       (t1, (loseItem g1 ammoItem (ammoToConsumeCount a))
                                              \<lparr>subject := Some (Actor (a\<lparr>ammoToConsumeCount := 0\<rparr>))\<rparr>)))
                        else (t1, g))
               else (t, g\<lparr>subject := Some (Actor (a\<lparr>ammoToConsumeCount := 0\<rparr>))\<rparr>)
          else (t, g)
      | _ \<Rightarrow> (t, g))"

text \<open>One action resolves its targets in order, one \<^verbatim>\<open>apply\<close> per target, each with its own
  random draws.\<close>

fun applyAll :: "config \<Rightarrow> game \<Rightarrow> ((nat \<Rightarrow> real) \<times> target) list \<Rightarrow> target list \<times> game" where
  "applyAll cfg g [] = ([], g)"
| "applyAll cfg g ((random, t) # rest) =
     (case apply_hook cfg g random t of
        (t', g1) \<Rightarrow> (case applyAll cfg g1 rest of (ts, g2) \<Rightarrow> (t' # ts, g2)))"

section \<open>Example data\<close>

text \<open>An arrow (item 5) and a fire arrow (item 7), a bow that uses arrows, the category
  \<open>Arrow\<close> bound to variable 10, and a multi-shot skill of five units.\<close>

definition ex_arrow :: item where
  "ex_arrow = \<lparr>item_id = 5, item_Ammo = Some ''Arrow'', item_AmmoAtk = Some 8,
     item_AmmoHitRate = Some 20, item_AmmoCrit = Some 10, item_AmmoDmgType = None,
     item_AmmoAnimation = None, item_AmmoState = [(4, 50)]\<rparr>"

definition ex_fire_arrow :: item where
  "ex_fire_arrow = \<lparr>item_id = 7, item_Ammo = Some ''Arrow'', item_AmmoAtk = Some 12,
     item_AmmoHitRate = None, item_AmmoCrit = None, item_AmmoDmgType = Some 2,
     item_AmmoAnimation = Some 77, item_AmmoState = []\<rparr>"

definition ex_bow :: weapon where
  "ex_bow = \<lparr>weapon_Ammo = Some ''Arrow'', weapon_DefaultWeaponId = None,
     weapon_RangedHit = Some 10, weapon_RangedCrit = None, animationId = 1\<rparr>"

definition ex_cfg :: config where
  "ex_cfg = \<lparr>ammoTypeVariables = [(''Arrow'', 10)],
     dataItems = [None, None, None, None, None, Some ex_arrow, None, Some ex_fire_arrow],
     dataWeapons = [None, Some ex_bow]\<rparr>"

definition ex_volley :: usable where
  "ex_volley = \<lparr>note_includes_UseAmmo = False, note_includes_StrictAmmo = False,
     note_includes_MultiShot = True, usable_StrictAmmo = None, usable_MultiShot = Some 5,
     usable_LowAmmoAnimation = None, usable_NoAmmoAnimation = None, successRate = 90\<rparr>"

definition ex_act :: action where
  "ex_act = \<lparr>isAttack = False, isSkill = True, act_item = ex_volley, overrideAnimationId = 0\<rparr>"

text \<open>An archer with a base hit rate of 0.5, after battle setup, with a clear overlay.\<close>

definition ex_archer :: actor where
  "ex_archer = \<lparr>equipped_weapons = [ex_bow], base_xparam = (\<lambda>i. if i = 0 then 0.5 else 0),
     battleWeapon = Some ex_bow, originalWeaponData = Some ex_bow,
     tempAmmoAtk = 0, tempAmmoStateInfo = [], tempAmmoElementId = None,
     tempRangedHit = 0, tempAmmoHit = 0, tempRangedCrit = 0, tempAmmoCrit = 0,
     isApplyingTempAmmoParams = False, ammoToConsumeCount = 0\<rparr>"

text \<open>A battle in which the party owns \<open>n5\<close> arrows and \<open>n7\<close> fire arrows, with item
  \<open>slot\<close> selected for the category.\<close>

definition ex_game :: "int \<Rightarrow> int \<Rightarrow> int \<Rightarrow> game" where
  "ex_game slot n5 n7 = \<lparr>gameVariables = (\<lambda>v. if v = 10 then slot else 0),
     partyItems = (\<lambda>i. if i = 5 then n5 else if i = 7 then n7 else 0),
     inBattle = True, subject = Some (Actor ex_archer), currentAction = Some ex_act\<rparr>"

definition ex_hit :: target where
  "ex_hit = \<lparr>result_isHit = True, isEnemy = True, isAlive = True, target_states = []\<rparr>"

definition ex_miss :: target where
  "ex_miss = \<lparr>result_isHit = False, isEnemy = True, isAlive = True, target_states = []\<rparr>"

text \<open>Random draws that are all 0, and a host engine whose own hit computation gives 0.95.\<close>

definition ex_draws :: "nat \<Rightarrow> real" where
  "ex_draws k = 0"

definition ex_host_itemHit :: "game \<Rightarrow> action \<Rightarrow> target \<Rightarrow> real" where
  "ex_host_itemHit g act t = 0.95"

section \<open>Definitions for stating the properties\<close>




text \<open>An overlay in its cleared state: not armed, every delta zero, no states, no element
  override, nothing pending.\<close>

definition overlayCleared :: "actor \<Rightarrow> bool" where
  "overlayCleared a =
     (\<not> isApplyingTempAmmoParams a \<and> tempAmmoAtk a = 0 \<and> tempAmmoStateInfo a = []
      \<and> tempAmmoElementId a = None \<and> tempRangedHit a = 0 \<and> tempAmmoHit a = 0
      \<and> tempRangedCrit a = 0 \<and> tempAmmoCrit a = 0 \<and> ammoToConsumeCount a = 0)"

text \<open>\<^verbatim>\<open>setupBattleWeapon\<close> and \<^verbatim>\<open>endBattle\<close> set the working copy and the pristine copy of
  the weapon together: both are present or both are absent.\<close>

definition weaponCopiesPaired :: "actor \<Rightarrow> bool" where
  "weaponCopiesPaired a = ((battleWeapon a = None) = (originalWeaponData a = None))"

text \<open>The item table of the host engine keeps every entry at the index that is its id.\<close>

definition wf_dataItems :: "config \<Rightarrow> bool" where
  "wf_dataItems cfg =
     (\<forall>i < length (dataItems cfg). \<forall>it. dataItems cfg ! i = Some it \<longrightarrow> item_id it = i)"

section \<open>More example data\<close>



text \<open>A skill with \<^verbatim>\<open><StrictAmmo: 30>\<close>.\<close>

definition ex_strict :: action where
  "ex_strict = \<lparr>isAttack = False, isSkill = True,
     act_item = ex_volley\<lparr>note_includes_StrictAmmo := True, note_includes_MultiShot := False,
                  usable_StrictAmmo := Some 30, usable_MultiShot := None\<rparr>,
     overrideAnimationId = 0\<rparr>"

text \<open>The archer as \<^verbatim>\<open>startAction\<close> leaves it for the volley with three arrows owned, and
  the battle with that archer as subject.\<close>

definition ex_armed_archer :: actor where
  "ex_armed_archer = ex_archer\<lparr>tempAmmoAtk := 23,
     tempAmmoStateInfo := [(4, 1 / 2), (4, 1 / 2), (4, 1 / 2)],
     tempRangedHit := 0.1, tempAmmoHit := 0.2625, tempAmmoCrit := 0.0875,
     isApplyingTempAmmoParams := True, ammoToConsumeCount := 3\<rparr>"

definition ex_armed :: "int \<Rightarrow> int \<Rightarrow> int \<Rightarrow> game" where
  "ex_armed slot n5 n7 = (ex_game slot n5 n7)\<lparr>subject := Some (Actor ex_armed_archer)\<rparr>"

text \<open>A basic attack with fire arrows selected, and the archer as \<^verbatim>\<open>startAction\<close> leaves it
  for that attack: the working copy of the bow carries the ammo's animation.\<close>

definition ex_plain :: usable where
  "ex_plain = \<lparr>note_includes_UseAmmo = False, note_includes_StrictAmmo = False,
     note_includes_MultiShot = False, usable_StrictAmmo = None, usable_MultiShot = None,
     usable_LowAmmoAnimation = None, usable_NoAmmoAnimation = None, successRate = 100\<rparr>"

definition ex_attack :: action where
  "ex_attack = \<lparr>isAttack = True, isSkill = False, act_item = ex_plain, overrideAnimationId = 0\<rparr>"

definition ex_attack_game :: game where
  "ex_attack_game = (ex_game 7 0 2)\<lparr>currentAction := Some ex_attack\<rparr>"

definition ex_fire_archer :: actor where
  "ex_fire_archer = ex_archer\<lparr>battleWeapon := Some (ex_bow\<lparr>animationId := 77\<rparr>),
     tempAmmoAtk := 12, tempAmmoElementId := Some 2, tempRangedHit := 0.1,
     isApplyingTempAmmoParams := True, ammoToConsumeCount := 1\<rparr>"

section \<open>Resource Selector\<close>

text \<open>
  Claim C7. A resource category that has no configured selection slot (no entry in the
  plugin's table, or an entry whose variable id is 0): \<^verbatim>\<open>ensureValidAmmoSelected\<close> returns
  \<^verbatim>\<open>null\<close> and leaves the whole state, the variable store and the inventory with it, as it
  was, and \<^verbatim>\<open>hasValidAmmo\<close> reports the selection as valid.
\<close>

theorem ensureSelection_no_slot:
  assumes "getVariableIdForAmmoType cfg category = None
           \<or> getVariableIdForAmmoType cfg category = Some 0"
  shows "ensureValidAmmoSelected cfg g category = (None, g) \<and> hasValidAmmo cfg g category"
  using assms by (auto simp: ensureValidAmmoSelected_def hasValidAmmo_def)

theorem ensureSelection_no_slot_witness:
  "getVariableIdForAmmoType ex_cfg (Some ''Bolt'') = None
   \<and> ensureValidAmmoSelected ex_cfg (ex_game 5 3 0) (Some ''Bolt'') = (None, ex_game 5 3 0)
   \<and> hasValidAmmo ex_cfg (ex_game 5 3 0) (Some ''Bolt'')"
  using ensureSelection_no_slot [of ex_cfg "Some ''Bolt''" "ex_game 5 3 0"]
  by (simp add: getVariableIdForAmmoType_def ex_cfg_def)

text \<open>The selector changes the variable store only.\<close>

lemma ensureValid_frame:
  "ensureValidAmmoSelected cfg g category = (sel, g1) \<Longrightarrow>
     partyItems g1 = partyItems g \<and> subject g1 = subject g \<and> inBattle g1 = inBattle g
     \<and> currentAction g1 = currentAction g"
  by (auto simp: ensureValidAmmoSelected_def setValue_def Let_def split: option.splits if_splits)

lemma loseItem_frame:
  "gameVariables (loseItem g it n) = gameVariables g \<and> subject (loseItem g it n) = subject g
   \<and> inBattle (loseItem g it n) = inBattle g \<and> currentAction (loseItem g it n) = currentAction g"
  by (simp add: loseItem_def)

text \<open>With a well-formed item table, the instance the selector returns is owned, so a
  multi-shot skill that \<^verbatim>\<open>startAction\<close> composes modifiers for fires at least one shot.\<close>

lemma party_items_owned:
  assumes "wf_dataItems cfg" and "it \<in> set (party_items cfg g)"
  shows "0 < numItems g it"
proof -
  from assms(2) obtain i where i: "i < length (dataItems cfg)" "0 < partyItems g i"
      "dataItems_at cfg i = Some it"
    by (auto simp: party_items_def List.map_filter_def dataItems_at_def split: if_splits)
  then have "item_id it = i" using assms(1) by (simp add: wf_dataItems_def dataItems_at_def)
  then show ?thesis using i(2) by (simp add: numItems_def)
qed

lemma ensureValid_owned:
  assumes "wf_dataItems cfg" and "ensureValidAmmoSelected cfg g category = (Some it, g1)"
  shows "0 < numItems g1 it"
proof -
  have p: "partyItems g1 = partyItems g" using ensureValid_frame [OF assms(2)] by simp
  have "hasItem g it \<or> it \<in> set (party_items cfg g)"
    using assms(2)
    by (auto simp: ensureValidAmmoSelected_def Let_def slotted_ok_def findBestMatchingAmmoItem_def
          find_Some_iff split: option.splits if_splits)
  then have "0 < numItems g it"
    using party_items_owned [OF assms(1)] by (auto simp: hasItem_def)
  then show ?thesis using p by (simp add: numItems_def)
qed

lemma start_shots_positive:
  assumes "wf_dataItems cfg" and "ensureValidAmmoSelected cfg g category = (Some it, g1)"
      and "0 < N"
  shows "0 < min N (numItems g1 it)"
  using ensureValid_owned [OF assms(1,2)] assms(3) by simp

section \<open>Modifier Compositor\<close>

text \<open>What \<^verbatim>\<open>applyAmmoEffects\<close> stores on the multi-shot path with at least one shot.\<close>

lemma applyAmmoEffects_multishot:
  assumes "battleWeapon a = Some bw"
      and "usable_MultiShot (act_item act) = Some N"
      and "0 < min N (numItems g ammo)"
  shows "applyAmmoEffects g a (Some ammo) act =
         Inr (a\<lparr>tempAmmoAtk :=
                 real_of_int (multiShotAtk (nat (min N (numItems g ammo))) (or0 (item_AmmoAtk ammo))
                   (singleShotHitChance (xparam a 0) (or0 (weapon_RangedHit bw) / 100)
                      (or0 (item_AmmoHitRate ammo) / 100) (successRate (act_item act) / 100))),
               ammoToConsumeCount := min N (numItems g ammo),
               tempAmmoStateInfo := concat (replicate (nat (min N (numItems g ammo))) (getNotetagStateInfo ammo)),
               tempAmmoHit := multiShotHitBonus ammo (act_item act) (numItems g ammo) (nat (min N (numItems g ammo))),
               tempAmmoCrit := multiShotCritBonus ammo (act_item act) (numItems g ammo) (nat (min N (numItems g ammo))),
               tempRangedHit := or0 (weapon_RangedHit bw) / 100,
               tempRangedCrit := or0 (weapon_RangedCrit bw) / 100,
               tempAmmoElementId := item_AmmoDmgType ammo,
               isApplyingTempAmmoParams := True\<rparr>)"
proof -
  have N: "0 < N" using assms(3) by simp
  have "composeModifiers g a bw ammo act =
        (real_of_int (multiShotAtk (nat (min N (numItems g ammo))) (or0 (item_AmmoAtk ammo))
                   (singleShotHitChance (xparam a 0) (or0 (weapon_RangedHit bw) / 100)
                      (or0 (item_AmmoHitRate ammo) / 100) (successRate (act_item act) / 100))),
         concat (replicate (nat (min N (numItems g ammo))) (getNotetagStateInfo ammo)),
         multiShotHitBonus ammo (act_item act) (numItems g ammo) (nat (min N (numItems g ammo))),
         multiShotCritBonus ammo (act_item act) (numItems g ammo) (nat (min N (numItems g ammo))),
         min N (numItems g ammo))"
    using assms(2,3) N by (simp add: composeModifiers_def Let_def)
  then show ?thesis using assms(1) by (simp add: applyAmmoEffects_def)
qed











section \<open>Hit check\<close>

text \<open>
  Claim C5. A skill with a configured strict-fallback rate, performed by an actor whose
  weapon declares a resource category for which \<^verbatim>\<open>hasValidAmmo\<close> is false: \<^verbatim>\<open>itemHit\<close>
  returns the fallback rate divided by 100, for every target and whatever the host engine's
  own hit computation would return.
\<close>

theorem itemHit_strict_fallback:
  assumes "subject g = Some (Actor a)"
      and "isSkill act"
      and "usable_StrictAmmo (act_item act) = Some fallbackRate"
      and "weapons g a = weapon # others"
      and "weapon_Ammo weapon = Some category" and "category \<noteq> []"
      and "\<not> hasValidAmmo cfg g (Some category)"
  shows "itemHit cfg g host_itemHit act t = fallbackRate / 100"
  using assms by (simp add: itemHit_def truthy_str_def)

text \<open>The example of the specification: \<^verbatim>\<open>StrictAmmo\<close> 30 and no arrow owned: 0.3.\<close>

theorem itemHit_strict_fallback_witness:
  "subject (ex_game 5 0 0) = Some (Actor ex_archer)
   \<and> isSkill ex_strict
   \<and> usable_StrictAmmo (act_item ex_strict) = Some 30
   \<and> weapons (ex_game 5 0 0) ex_archer = ex_bow # []
   \<and> weapon_Ammo ex_bow = Some ''Arrow'' \<and> ''Arrow'' \<noteq> []
   \<and> \<not> hasValidAmmo ex_cfg (ex_game 5 0 0) (Some ''Arrow'')
   \<and> itemHit ex_cfg (ex_game 5 0 0) ex_host_itemHit ex_strict ex_hit = 0.3"
proof -
  have h1: "subject (ex_game 5 0 0) = Some (Actor ex_archer)" by (simp add: ex_game_def)
  have h2: "isSkill ex_strict" by (simp add: ex_strict_def)
  have h3: "usable_StrictAmmo (act_item ex_strict) = Some 30" by (simp add: ex_strict_def)
  have h4: "weapons (ex_game 5 0 0) ex_archer = ex_bow # []"
    by (simp add: weapons_def ex_game_def ex_archer_def)
  have h5: "weapon_Ammo ex_bow = Some ''Arrow''" by (simp add: ex_bow_def)
  have h6: "''Arrow'' \<noteq> []" by simp
  have h7: "\<not> hasValidAmmo ex_cfg (ex_game 5 0 0) (Some ''Arrow'')" by code_simp
  show ?thesis
    using itemHit_strict_fallback [OF h1 h2 h3 h4 h5 h6 h7, of ex_host_itemHit ex_hit] h1 h2 h3 h4 h5 h7
    by simp
qed

section \<open>Apply: consumption\<close>

text \<open>Once the pending count is zero, no later \<^verbatim>\<open>apply\<close> of the action changes the state.\<close>

lemma actor_spent: "ammoToConsumeCount a = 0 \<Longrightarrow> a\<lparr>ammoToConsumeCount := 0\<rparr> = a"
  by (cases a) simp

lemma game_same_subject: "subject g = s \<Longrightarrow> g\<lparr>subject := s\<rparr> = g"
  by (cases g) simp

lemma apply_hook_spent:
  assumes "subject g = Some (Actor a)" and "ammoToConsumeCount a = 0"
  shows "snd (apply_hook cfg g random t) = g"
  using assms by (simp add: apply_hook_def Let_def actor_spent game_same_subject)

lemma applyAll_spent:
  assumes "subject g = Some (Actor a)" and "ammoToConsumeCount a = 0"
  shows "snd (applyAll cfg g targets) = g"
  using assms
proof (induction targets)
  case Nil
  then show ?case by simp
next
  case (Cons x targets)
  obtain random t where x: "x = (random, t)" by (cases x)
  have "snd (apply_hook cfg g random t) = g" using Cons.prems by (rule apply_hook_spent)
  then show ?case using Cons x by (simp add: split_beta)
qed

text \<open>What one \<^verbatim>\<open>apply\<close> does on a miss, and on a hit with a pending count.\<close>

lemma apply_hook_miss:
  assumes "subject g = Some (Actor a)" and "isApplyingTempAmmoParams a" and "\<not> result_isHit t"
  shows "snd (apply_hook cfg g random t) = g\<lparr>subject := Some (Actor (a\<lparr>ammoToConsumeCount := 0\<rparr>))\<rparr>"
  using assms by (simp add: apply_hook_def)

lemma apply_hook_hit:
  assumes "subject g = Some (Actor a)" and "isApplyingTempAmmoParams a" and "result_isHit t"
      and "0 < ammoToConsumeCount a" and "weapons g a = weapon # others"
      and "ensureValidAmmoSelected cfg g (weapon_Ammo weapon) = (sel, g1)"
  shows "snd (apply_hook cfg g random t) =
         (case sel of None \<Rightarrow> g1 | Some ammoItem \<Rightarrow> loseItem g1 ammoItem (ammoToConsumeCount a))
           \<lparr>subject := Some (Actor (a\<lparr>ammoToConsumeCount := 0\<rparr>))\<rparr>"
  using assms by (simp add: apply_hook_def Let_def split: option.split)

lemma miss_first:
  assumes "subject g = Some (Actor a)" and "isApplyingTempAmmoParams a" and "\<not> result_isHit t"
  shows "snd (applyAll cfg g ((random, t) # rest))
         = g\<lparr>subject := Some (Actor (a\<lparr>ammoToConsumeCount := 0\<rparr>))\<rparr>"
proof -
  let ?g1 = "g\<lparr>subject := Some (Actor (a\<lparr>ammoToConsumeCount := 0\<rparr>))\<rparr>"
  have s: "snd (apply_hook cfg g random t) = ?g1" using assms by (rule apply_hook_miss)
  have "snd (applyAll cfg ?g1 rest) = ?g1"
    by (rule applyAll_spent [where a = "a\<lparr>ammoToConsumeCount := 0\<rparr>"]) simp_all
  then show ?thesis using s by (simp add: split_beta)
qed

text \<open>The example states.\<close>

lemma armed_facts:
  "subject (ex_armed slot n5 n7) = Some (Actor ex_armed_archer)"
  "isApplyingTempAmmoParams ex_armed_archer"
  "ammoToConsumeCount ex_armed_archer = 3"
  "weapons (ex_armed slot n5 n7) ex_armed_archer = [ex_bow]"
  "weapon_Ammo ex_bow = Some ''Arrow''"
  "partyItems (ex_armed slot n5 n7) = (\<lambda>i. if i = 5 then n5 else if i = 7 then n7 else 0)"
  "gameVariables (ex_armed slot n5 n7) = (\<lambda>v. if v = 10 then slot else 0)"
  by (simp_all add: ex_armed_def ex_game_def ex_armed_archer_def ex_archer_def weapons_def ex_bow_def)

lemma ensureValid_arrow:
  "ensureValidAmmoSelected ex_cfg (ex_game 5 3 n7) (Some ''Arrow'') = (Some ex_arrow, ex_game 5 3 n7)"
  by (simp add: ensureValidAmmoSelected_def getVariableIdForAmmoType_def ex_cfg_def ex_game_def
        dataItems_at_def slotted_ok_def hasItem_def numItems_def ex_arrow_def)


lemma start_example: "startAction ex_cfg (ex_game 5 3 n7) = Inr (ex_armed 5 3 n7)"
proof -
  have w: "weapons (ex_game 5 3 n7) ex_archer = [ex_bow]"
    by (simp add: weapons_def ex_game_def ex_archer_def)
  have r: "resetAmmoEffects ex_archer = ex_archer"
    by (simp add: resetAmmoEffects_def ex_archer_def)
  have bw: "battleWeapon ex_archer = Some ex_bow" by (simp add: ex_archer_def)
  have ms: "usable_MultiShot (act_item ex_act) = Some 5" by (simp add: ex_act_def ex_volley_def)
  have n: "numItems (ex_game 5 3 n7) ex_arrow = 3" by (simp add: numItems_def ex_game_def ex_arrow_def)
  have pos: "0 < min 5 (numItems (ex_game 5 3 n7) ex_arrow)" by (simp add: n)
  have atk: "multiShotAtk 3 8 (singleShotHitChance (1/2) (1/10) (1/5) (9/10)) = 23" by code_simp
  have a: "applyAmmoEffects (ex_game 5 3 n7) ex_archer (Some ex_arrow) ex_act = Inr ex_armed_archer"
    unfolding applyAmmoEffects_multishot [OF bw ms pos] n
    using atk
    by (simp add: ex_armed_archer_def ex_archer_def xparam_def or0_def ex_bow_def ex_arrow_def
          ex_act_def ex_volley_def multiShotHitBonus_def multiShotCritBonus_def totalBonus_def
          lowAmmo_def getNotetagStateInfo_def power3_eq_cube eval_nat_numeral)
  have sk: "skillAnimation (ex_game 5 3 n7) ex_arrow ex_act = ex_act"
    by (simp add: skillAnimation_def ex_act_def ex_volley_def)
  have g: "(ex_game 5 3 n7)\<lparr>subject := Some (Actor ex_armed_archer), currentAction := Some ex_act\<rparr>
           = ex_armed 5 3 n7"
    by (simp add: ex_armed_def ex_game_def)
  have s: "subject (ex_game 5 3 n7) = Some (Actor ex_archer)" by (simp add: ex_game_def)
  have c: "currentAction (ex_game 5 3 n7) = Some ex_act" by (simp add: ex_game_def)
  have t: "weapon_Ammo ex_bow = Some ''Arrow''" by (simp add: ex_bow_def)
  have e: "isAmmoAction ex_act" "\<not> isAttack ex_act" "isSkill ex_act"
    by (simp_all add: isAmmoAction_def ex_act_def ex_volley_def)
  show ?thesis
    unfolding startAction_def
    by (simp add: s c w t e r a sk g ensureValid_arrow truthy_str_def)
qed




text \<open>
  Claim C9. When the first target that \<^verbatim>\<open>apply\<close> processes for an armed actor is a miss,
  the miss zeroes the pending consumption count: after all the targets of the action,
  whatever their results, the inventory and the variable store are what they were and the
  pending count is zero.
\<close>

theorem miss_before_hit_no_deduction:
  assumes "subject g = Some (Actor a)" and "isApplyingTempAmmoParams a" and "\<not> result_isHit t"
  shows "partyItems (snd (applyAll cfg g ((random, t) # rest))) = partyItems g
       \<and> gameVariables (snd (applyAll cfg g ((random, t) # rest))) = gameVariables g
       \<and> subject (snd (applyAll cfg g ((random, t) # rest)))
           = Some (Actor (a\<lparr>ammoToConsumeCount := 0\<rparr>))"
  unfolding miss_first [OF assms] by simp

theorem miss_before_hit_no_deduction_witness:
  "subject (ex_armed 5 3 0) = Some (Actor ex_armed_archer)
   \<and> isApplyingTempAmmoParams ex_armed_archer
   \<and> \<not> result_isHit ex_miss \<and> result_isHit ex_hit
   \<and> 0 < ammoToConsumeCount ex_armed_archer
   \<and> partyItems (snd (applyAll ex_cfg (ex_armed 5 3 0) [(ex_draws, ex_miss), (ex_draws, ex_hit)]))
       = partyItems (ex_armed 5 3 0)
   \<and> subject (snd (applyAll ex_cfg (ex_armed 5 3 0) [(ex_draws, ex_miss), (ex_draws, ex_hit)]))
       = Some (Actor (ex_armed_archer\<lparr>ammoToConsumeCount := 0\<rparr>))"
proof -
  have h1: "subject (ex_armed 5 3 0) = Some (Actor ex_armed_archer)" by (simp add: armed_facts)
  have h2: "isApplyingTempAmmoParams ex_armed_archer" by (simp add: armed_facts)
  have h3: "\<not> result_isHit ex_miss" by (simp add: ex_miss_def)
  have h4: "result_isHit ex_hit" by (simp add: ex_hit_def)
  show ?thesis
    using miss_before_hit_no_deduction [OF h1 h2 h3, of ex_cfg ex_draws "[(ex_draws, ex_hit)]"] h1 h2 h3 h4
    by (simp add: armed_facts)
qed

text \<open>
  Claim C10. On a hit with a pending count, \<^verbatim>\<open>apply\<close> runs \<^verbatim>\<open>ensureValidAmmoSelected\<close>
  again. When the slotted instance is no longer valid at that time and the party owns another
  matching instance, the hit writes that instance's id into the selection slot and deducts the
  pending count from that instance, which need not be the one the modifiers were computed
  from at the start of the action.
\<close>

theorem commit_reselects_at_apply:
  assumes "subject g = Some (Actor a)" and "isApplyingTempAmmoParams a"
      and "0 < ammoToConsumeCount a" and "result_isHit t"
      and "weapons g a = weapon # others"
      and "getVariableIdForAmmoType cfg (weapon_Ammo weapon) = Some variableId"
      and "variableId \<noteq> 0"
      and "\<not> slotted_ok g (weapon_Ammo weapon)
              (if 0 < gameVariables g variableId
               then dataItems_at cfg (nat (gameVariables g variableId)) else None)"
      and "findBestMatchingAmmoItem cfg g (weapon_Ammo weapon) = Some bestAmmo"
      and "g' = snd (apply_hook cfg g random t)"
  shows "gameVariables g' = (gameVariables g)(variableId := int (item_id bestAmmo))
       \<and> partyItems g' = partyItems (loseItem g bestAmmo (ammoToConsumeCount a))"
proof -
  let ?g1 = "setValue g variableId (int (item_id bestAmmo))"
  have e: "ensureValidAmmoSelected cfg g (weapon_Ammo weapon) = (Some bestAmmo, ?g1)"
    using assms(6,7,8,9) by (simp add: ensureValidAmmoSelected_def Let_def)
  have "g' = (loseItem ?g1 bestAmmo (ammoToConsumeCount a))
               \<lparr>subject := Some (Actor (a\<lparr>ammoToConsumeCount := 0\<rparr>))\<rparr>"
    using apply_hook_hit [OF assms(1,2,4,3,5) e] assms(10) by simp
  then show ?thesis by (simp add: loseItem_def setValue_def numItems_def)
qed

text \<open>The overlay was computed from the arrows (item 5); by the time of the hit the party
  owns no arrow but four fire arrows (item 7): the slot changes from 5 to 7 and three fire
  arrows are deducted.\<close>

theorem commit_reselects_at_apply_witness:
  "startAction ex_cfg (ex_game 5 3 4) = Inr (ex_armed 5 3 4)
   \<and> subject (ex_armed 5 0 4) = Some (Actor ex_armed_archer)
   \<and> isApplyingTempAmmoParams ex_armed_archer
   \<and> ammoToConsumeCount ex_armed_archer = 3
   \<and> result_isHit ex_hit
   \<and> weapons (ex_armed 5 0 4) ex_armed_archer = ex_bow # []
   \<and> getVariableIdForAmmoType ex_cfg (weapon_Ammo ex_bow) = Some 10
   \<and> gameVariables (ex_armed 5 0 4) 10 = 5
   \<and> \<not> slotted_ok (ex_armed 5 0 4) (weapon_Ammo ex_bow) (dataItems_at ex_cfg 5)
   \<and> findBestMatchingAmmoItem ex_cfg (ex_armed 5 0 4) (weapon_Ammo ex_bow) = Some ex_fire_arrow
   \<and> gameVariables (snd (apply_hook ex_cfg (ex_armed 5 0 4) ex_draws ex_hit)) 10 = 7
   \<and> partyItems (snd (apply_hook ex_cfg (ex_armed 5 0 4) ex_draws ex_hit)) 7 = 1
   \<and> partyItems (snd (apply_hook ex_cfg (ex_armed 5 0 4) ex_draws ex_hit)) 5 = 0"
proof -
  have h1: "subject (ex_armed 5 0 4) = Some (Actor ex_armed_archer)" by (simp add: armed_facts)
  have h2: "isApplyingTempAmmoParams ex_armed_archer" by (simp add: armed_facts)
  have h3: "0 < ammoToConsumeCount ex_armed_archer" by (simp add: armed_facts)
  have h4: "result_isHit ex_hit" by (simp add: ex_hit_def)
  have h5: "weapons (ex_armed 5 0 4) ex_armed_archer = ex_bow # []" by (simp add: armed_facts)
  have h6: "getVariableIdForAmmoType ex_cfg (weapon_Ammo ex_bow) = Some 10"
    by (simp add: getVariableIdForAmmoType_def ex_cfg_def armed_facts)
  have h7: "(10::nat) \<noteq> 0" by simp
  have v: "gameVariables (ex_armed 5 0 4) 10 = 5" by (simp add: armed_facts)
  have s: "\<not> slotted_ok (ex_armed 5 0 4) (weapon_Ammo ex_bow) (dataItems_at ex_cfg 5)"
    by (simp add: slotted_ok_def dataItems_at_def ex_cfg_def hasItem_def numItems_def armed_facts
          ex_arrow_def)
  have h8: "\<not> slotted_ok (ex_armed 5 0 4) (weapon_Ammo ex_bow)
              (if 0 < gameVariables (ex_armed 5 0 4) 10
               then dataItems_at ex_cfg (nat (gameVariables (ex_armed 5 0 4) 10)) else None)"
    using s by (simp add: v)
  have h9: "findBestMatchingAmmoItem ex_cfg (ex_armed 5 0 4) (weapon_Ammo ex_bow) = Some ex_fire_arrow"
    by (simp add: findBestMatchingAmmoItem_def party_items_def armed_facts ex_cfg_def
          dataItems_at_def List.map_filter_def upt_rec ex_fire_arrow_def)
  show ?thesis
    using commit_reselects_at_apply [OF h1 h2 h3 h4 h5 h6 h7 h8 h9 refl, of ex_draws]
      h1 h2 h4 h5 h6 v s h9
    by (simp add: start_example armed_facts loseItem_def numItems_def ex_fire_arrow_def)
qed

section \<open>End of the action\<close>

text \<open>The weapon copies through the hooks.\<close>

lemma setupBattleWeapon_paired:
  "setupBattleWeapon cfg a = Inr a' \<Longrightarrow> weaponCopiesPaired a'"
  by (auto simp: setupBattleWeapon_def weaponCopiesPaired_def split: list.splits option.splits if_splits)

lemma resetAmmoEffects_cleared: "overlayCleared (resetAmmoEffects a)"
  by (simp add: overlayCleared_def resetAmmoEffects_def Let_def split: option.split)

lemma resetAmmoEffects_weapon:
  "originalWeaponData (resetAmmoEffects a) = originalWeaponData a
   \<and> (weaponCopiesPaired a \<longrightarrow> battleWeapon (resetAmmoEffects a) = originalWeaponData a)"
  by (auto simp: resetAmmoEffects_def weaponCopiesPaired_def Let_def split: option.split)

lemma applyAmmoEffects_weapon:
  "applyAmmoEffects g a sel act = Inr a' \<Longrightarrow>
     battleWeapon a' = battleWeapon a \<and> originalWeaponData a' = originalWeaponData a"
  by (auto simp: applyAmmoEffects_def split: option.splits prod.splits)

lemma attackAnimation_weapon:
  "originalWeaponData (attackAnimation ammo a) = originalWeaponData a
   \<and> ((battleWeapon (attackAnimation ammo a) = None) = (battleWeapon a = None))
   \<and> isApplyingTempAmmoParams (attackAnimation ammo a) = isApplyingTempAmmoParams a"
  by (simp add: attackAnimation_def split: option.split)

lemma startAction_weapon:
  assumes "startAction cfg g0 = Inr g1" and "subject g0 = Some (Actor a0)"
  shows "\<exists>a1. subject g1 = Some (Actor a1) \<and> originalWeaponData a1 = originalWeaponData a0
              \<and> (weaponCopiesPaired a0 \<longrightarrow> weaponCopiesPaired a1)"
proof -
  have rp: "weaponCopiesPaired a0 \<Longrightarrow> weaponCopiesPaired (resetAmmoEffects a0)"
    using resetAmmoEffects_weapon [of a0] by (simp add: weaponCopiesPaired_def)
  have ro: "originalWeaponData (resetAmmoEffects a0) = originalWeaponData a0"
    using resetAmmoEffects_weapon [of a0] by simp
  show ?thesis
    using assms rp ro
    apply (simp add: startAction_def Let_def
        split: option.splits list.splits prod.splits if_splits sum.splits)
    apply (auto dest!: applyAmmoEffects_weapon ensureValid_frame
        simp: weaponCopiesPaired_def attackAnimation_weapon)
    done
qed

lemma apply_hook_subject:
  assumes "subject g = Some (Actor a)"
  shows "subject (snd (apply_hook cfg g random t)) = Some (Actor a)
       \<or> subject (snd (apply_hook cfg g random t)) = Some (Actor (a\<lparr>ammoToConsumeCount := 0\<rparr>))"
  using assms
  by (simp add: apply_hook_def Let_def split: list.split prod.split option.split)

lemma applyAll_subject:
  assumes "subject g = Some (Actor a)"
  shows "\<exists>a'. subject (snd (applyAll cfg g targets)) = Some (Actor a')
              \<and> isApplyingTempAmmoParams a' = isApplyingTempAmmoParams a
              \<and> battleWeapon a' = battleWeapon a
              \<and> originalWeaponData a' = originalWeaponData a"
  using assms
proof (induction targets arbitrary: g a)
  case Nil
  then show ?case by simp
next
  case (Cons x targets)
  obtain random t where x: "x = (random, t)" by (cases x)
  let ?g1 = "snd (apply_hook cfg g random t)"
  from apply_hook_subject [OF Cons.prems, of cfg random t]
  obtain a1 where a1: "subject ?g1 = Some (Actor a1)"
      "isApplyingTempAmmoParams a1 = isApplyingTempAmmoParams a"
      "battleWeapon a1 = battleWeapon a" "originalWeaponData a1 = originalWeaponData a"
    by auto
  from Cons.IH [OF a1(1)] a1(2,3,4) show ?case
    by (simp add: x split_beta)
qed

lemma endAction_subject:
  assumes "subject g = Some (Actor a)" and "isApplyingTempAmmoParams a"
  shows "subject (endAction g) = Some (Actor (resetAmmoEffects a))"
  using assms by (simp add: endAction_def Let_def split: option.split)

lemma start_attack_example:
  "startAction ex_cfg ex_attack_game = Inr (ex_attack_game\<lparr>subject := Some (Actor ex_fire_archer)\<rparr>)"
proof -
  have s: "subject ex_attack_game = Some (Actor ex_archer)"
    and c: "currentAction ex_attack_game = Some ex_attack"
    by (simp_all add: ex_attack_game_def ex_game_def)
  have w: "weapons ex_attack_game ex_archer = [ex_bow]"
    by (simp add: weapons_def ex_attack_game_def ex_game_def ex_archer_def)
  have t: "weapon_Ammo ex_bow = Some ''Arrow''" by (simp add: ex_bow_def)
  have e: "isAmmoAction ex_attack" "isAttack ex_attack"
    by (simp_all add: isAmmoAction_def ex_attack_def)
  have v: "ensureValidAmmoSelected ex_cfg ex_attack_game (Some ''Arrow'')
           = (Some ex_fire_arrow, ex_attack_game)"
    by (simp add: ensureValidAmmoSelected_def getVariableIdForAmmoType_def ex_cfg_def
          ex_attack_game_def ex_game_def dataItems_at_def slotted_ok_def hasItem_def numItems_def
          ex_fire_arrow_def)
  have r: "resetAmmoEffects ex_archer = ex_archer"
    by (simp add: resetAmmoEffects_def ex_archer_def)
  have a: "applyAmmoEffects ex_attack_game ex_archer (Some ex_fire_arrow) ex_attack
           = Inr (ex_fire_archer\<lparr>battleWeapon := Some ex_bow\<rparr>)"
    by (simp add: applyAmmoEffects_def composeModifiers_def ex_archer_def ex_attack_def ex_plain_def
          ex_fire_arrow_def ex_fire_archer_def or0_def getNotetagStateInfo_def ex_bow_def)
  have n: "attackAnimation ex_fire_arrow (ex_fire_archer\<lparr>battleWeapon := Some ex_bow\<rparr>) = ex_fire_archer"
    by (simp add: attackAnimation_def ex_fire_arrow_def ex_fire_archer_def)
  show ?thesis
    unfolding startAction_def
    by (simp add: s c w t e v r a n truthy_str_def)
qed

text \<open>
  Claim C6. For an actor whose weapon copies were set together (as battle setup does) and
  whose overlay is armed after \<^verbatim>\<open>startAction\<close>: after any number of \<^verbatim>\<open>apply\<close> calls, none
  included (the action was aborted before Apply), \<^verbatim>\<open>endAction\<close> leaves the overlay cleared
  (not armed, every delta zero, nothing pending) and the working copy of the weapon equal to
  the pristine copy, which is the one from before the action. The next action of the actor
  therefore begins with an unarmed overlay.
\<close>

theorem endAction_resets_overlay:
  assumes "subject g0 = Some (Actor a0)" and "weaponCopiesPaired a0"
      and "startAction cfg g0 = Inr g1"
      and "subject g1 = Some (Actor a1)" and "isApplyingTempAmmoParams a1"
  shows "\<exists>a3. subject (endAction (snd (applyAll cfg g1 targets))) = Some (Actor a3)
              \<and> overlayCleared a3
              \<and> battleWeapon a3 = originalWeaponData a3
              \<and> originalWeaponData a3 = originalWeaponData a0"
proof -
  from startAction_weapon [OF assms(3,1)] assms(2,4)
  have s: "originalWeaponData a1 = originalWeaponData a0" "weaponCopiesPaired a1" by auto
  from applyAll_subject [OF assms(4), of cfg targets]
  obtain a2 where a2: "subject (snd (applyAll cfg g1 targets)) = Some (Actor a2)"
      "isApplyingTempAmmoParams a2 = isApplyingTempAmmoParams a1"
      "battleWeapon a2 = battleWeapon a1" "originalWeaponData a2 = originalWeaponData a1"
    by auto
  have p: "weaponCopiesPaired a2" using s(2) a2(3,4) by (simp add: weaponCopiesPaired_def)
  have e: "subject (endAction (snd (applyAll cfg g1 targets))) = Some (Actor (resetAmmoEffects a2))"
    using a2(1,2) assms(5) by (simp add: endAction_subject)
  show ?thesis
    using e resetAmmoEffects_cleared [of a2] resetAmmoEffects_weapon [of a2] p a2(4) s(1)
    by simp
qed

text \<open>A basic attack with fire arrows puts the ammo's animation 77 on the working copy of
  the bow; the action is aborted before any \<^verbatim>\<open>apply\<close>, and \<^verbatim>\<open>endAction\<close> restores the bow.\<close>

theorem endAction_resets_overlay_witness:
  "subject ex_attack_game = Some (Actor ex_archer)
   \<and> weaponCopiesPaired ex_archer
   \<and> startAction ex_cfg ex_attack_game = Inr (ex_attack_game\<lparr>subject := Some (Actor ex_fire_archer)\<rparr>)
   \<and> isApplyingTempAmmoParams ex_fire_archer
   \<and> battleWeapon ex_fire_archer = Some (ex_bow\<lparr>animationId := 77\<rparr>)
   \<and> (\<exists>a3. subject (endAction (snd (applyAll ex_cfg
                (ex_attack_game\<lparr>subject := Some (Actor ex_fire_archer)\<rparr>) []))) = Some (Actor a3)
          \<and> overlayCleared a3 \<and> battleWeapon a3 = Some ex_bow)"
proof -
  have h1: "subject ex_attack_game = Some (Actor ex_archer)"
    by (simp add: ex_attack_game_def ex_game_def)
  have h2: "weaponCopiesPaired ex_archer" by (simp add: weaponCopiesPaired_def ex_archer_def)
  have h4: "subject (ex_attack_game\<lparr>subject := Some (Actor ex_fire_archer)\<rparr>) = Some (Actor ex_fire_archer)"
    by simp
  have h5: "isApplyingTempAmmoParams ex_fire_archer" by (simp add: ex_fire_archer_def)
  have b: "battleWeapon ex_fire_archer = Some (ex_bow\<lparr>animationId := 77\<rparr>)"
    by (simp add: ex_fire_archer_def)
  have o: "originalWeaponData ex_archer = Some ex_bow" by (simp add: ex_archer_def)
  show ?thesis
    using endAction_resets_overlay [OF h1 h2 start_attack_example h4 h5, of "[]"] h1 h2 h5 b o
      start_attack_example
    by auto
qed

end
